theory Spec2Isabelle
  imports Main "HOL-Library.Word"
begin

unbundle bit_operations_syntax

section \<open>Go byte slices\<close>

text \<open>
  A Go \<^verbatim>\<open>byte\<close> is an unsigned 8-bit integer. A \<^verbatim>\<open>[]byte\<close> is a window on a backing
  array: \<open>elems\<close> are the bytes below \<^verbatim>\<open>len\<close>, \<open>spare\<close> the bytes of the backing array
  between \<^verbatim>\<open>len\<close> and \<^verbatim>\<open>cap\<close>. Indexing is checked against \<^verbatim>\<open>len\<close>, the upper bound
  of a slice expression against \<^verbatim>\<open>cap\<close>; a failed check is a run-time panic.
\<close>

type_synonym byte = "8 word"

record byteslice =
  elems :: "byte list"
  spare :: "byte list"

datatype error = IndexOutOfRange | SliceBoundsOutOfRange

definition len :: "byteslice \<Rightarrow> nat" where
  "len s = length (elems s)"

definition cap :: "byteslice \<Rightarrow> nat" where
  "cap s = length (elems s) + length (spare s)"

text \<open>\<^verbatim>\<open>make([]byte, n)\<close>: length \<open>n\<close>, capacity \<open>n\<close>, all zero.\<close>

definition make_bytes :: "nat \<Rightarrow> byteslice" where
  "make_bytes n = \<lparr>elems = replicate n 0, spare = []\<rparr>"

text \<open>\<^verbatim>\<open>copy(dst, src)\<close> between distinct arrays: the first \<^verbatim>\<open>min(len(dst), len(src))\<close> bytes.\<close>

definition copy :: "byteslice \<Rightarrow> byteslice \<Rightarrow> byteslice" where
  "copy dst src =
     (let k = min (len dst) (len src)
      in dst\<lparr>elems := take k (elems src) @ drop k (elems dst)\<rparr>)"

text \<open>\<^verbatim>\<open>s[i]\<close>\<close>

definition index :: "byteslice \<Rightarrow> nat \<Rightarrow> error + byte" where
  "index s i = (if i < len s then Inr (elems s ! i) else Inl IndexOutOfRange)"

text \<open>\<^verbatim>\<open>s[lo:hi]\<close>: requires \<^verbatim>\<open>lo <= hi <= cap(s)\<close>.\<close>

definition reslice :: "byteslice \<Rightarrow> nat \<Rightarrow> nat \<Rightarrow> error + byteslice" where
  "reslice s lo hi =
     (if hi \<le> cap s \<and> lo \<le> hi
      then Inr \<lparr>elems = drop lo (take hi (elems s @ spare s)),
               spare = drop hi (elems s @ spare s)\<rparr>
      else Inl SliceBoundsOutOfRange)"

text \<open>\<^verbatim>\<open>s[:hi]\<close> is \<^verbatim>\<open>s[0:hi]\<close>, and \<^verbatim>\<open>s[lo:]\<close> is \<^verbatim>\<open>s[lo:len(s)]\<close>.\<close>

definition slice_to :: "byteslice \<Rightarrow> nat \<Rightarrow> error + byteslice" where
  "slice_to s hi = reslice s 0 hi"

definition slice_from :: "byteslice \<Rightarrow> nat \<Rightarrow> error + byteslice" where
  "slice_from s lo = reslice s lo (len s)"

text \<open>The conversion of a Go string constant to its bytes.\<close>

definition bytes_of :: "string \<Rightarrow> byte list" where
  "bytes_of = map of_char"

section \<open>Observable effects\<close>

text \<open>
  A run of a function is the list of effects it had on the outside, in order, and how it
  ended. \<^verbatim>\<open>net.Addr\<close> and \<^verbatim>\<open>error\<close> values are only ever printed; they are kept as text.
\<close>

type_synonym addr = string
type_synonym goerror = string

record Midi =
  State :: byte
  Channel :: byte
  Note :: byte
  Velocity :: byte

datatype event =
    DeviceWrite "byte list"                       \<comment> \<open>\<^verbatim>\<open>m.MidiOut.Write(data)\<close>\<close>
  | PrintlnMidiNote Midi                          \<comment> \<open>\<^verbatim>\<open>fmt.Println("MidiNote: ", ToMidi(req))\<close>\<close>
  | PrintfMidiNote Midi                           \<comment> \<open>\<^verbatim>\<open>fmt.Printf("MidiNote: %+v\n", ToMidi(req))\<close>\<close>
  | PrintfNotImplemented "byte list"              \<comment> \<open>\<^verbatim>\<open>fmt.Printf("%s not implemeted\n", req)\<close>\<close>
  | PrintlnReceived "byte list" "addr option"     \<comment> \<open>\<^verbatim>\<open>fmt.Println("Received ", string(buf[0:n]), " from ", addr)\<close>\<close>
  | LogPrintln goerror                            \<comment> \<open>\<^verbatim>\<open>log.Println(err)\<close>\<close>
  | LogFatal goerror                              \<comment> \<open>the print of \<^verbatim>\<open>log.Fatal(err)\<close>\<close>
  | Stdout string                                 \<comment> \<open>literal text on standard output\<close>
  | Go byteslice                                  \<comment> \<open>\<^verbatim>\<open>go bridge.handleCmd(bufCopy)\<close>\<close>

datatype outcome =
    Returned                 \<comment> \<open>the function returned\<close>
  | Panicked error           \<comment> \<open>a run-time panic, recovered nowhere in the program\<close>
  | Exited int               \<comment> \<open>\<^verbatim>\<open>os.Exit\<close>: the process is gone\<close>
  | Blocked                  \<comment> \<open>waiting in a blocking call for the next input\<close>

type_synonym run = "event list \<times> outcome"

text \<open>The calls of \<^verbatim>\<open>MidiOut.Write\<close> in a trace, and the bytes they send, in order.\<close>

fun deviceWrites :: "event list \<Rightarrow> byte list list" where
  "deviceWrites [] = []"
| "deviceWrites (DeviceWrite d # es) = d # deviceWrites es"
| "deviceWrites (_ # es) = deviceWrites es"

section \<open>main.go\<close>

definition midiCall :: "byte list" where
  "midiCall = bytes_of ''/midi''"

text \<open>
  \<^verbatim>\<open>ToMidi\<close> indexes \<^verbatim>\<open>req[10]\<close>, \<^verbatim>\<open>req[10]\<close>, \<^verbatim>\<open>req[9]\<close>, \<^verbatim>\<open>req[8]\<close> in this order, with no
  length check of its own.
\<close>

definition ToMidi :: "byteslice \<Rightarrow> error + Midi" where
  "ToMidi req =
     (case index req 10 of Inl e \<Rightarrow> Inl e | Inr s \<Rightarrow>
     (case index req 10 of Inl e \<Rightarrow> Inl e | Inr c \<Rightarrow>
     (case index req 9 of Inl e \<Rightarrow> Inl e | Inr n \<Rightarrow>
     (case index req 8 of Inl e \<Rightarrow> Inl e | Inr v \<Rightarrow>
        Inr \<lparr>State = drop_bit 4 s, Channel = c AND 0x0f, Note = n, Velocity = v\<rparr>))))"

text \<open>
  \<^verbatim>\<open>Write\<close> takes the bridge's lock, writes to \<^verbatim>\<open>MidiOut\<close> and releases the lock; the
  result of the write is dropped. Within one task the lock has no effect of its own.
\<close>

definition Write :: "byte list \<Rightarrow> event list" where
  "Write data = [DeviceWrite data]"

definition handleMidi :: "byteslice \<Rightarrow> run" where
  "handleMidi req =
     (if len req \<noteq> 11 then ([], Returned)
      else (case ToMidi req of Inl e \<Rightarrow> ([], Panicked e) | Inr m \<Rightarrow>
           (case index req 10 of Inl e \<Rightarrow> ([PrintlnMidiNote m], Panicked e) | Inr b10 \<Rightarrow>
           (case index req 9 of Inl e \<Rightarrow> ([PrintlnMidiNote m], Panicked e) | Inr b9 \<Rightarrow>
           (case index req 8 of Inl e \<Rightarrow> ([PrintlnMidiNote m], Panicked e) | Inr b8 \<Rightarrow>
             (PrintlnMidiNote m # Write [b10, b9, b8], Returned))))))"

text \<open>
  The \<^verbatim>\<open>switch\<close> of \<^verbatim>\<open>handleCmd\<close> has one case and a default. \<open>isMidiCall\<close> is the
  guard of the case, \<^verbatim>\<open>string(req[:len(midiCall)]) == midiCall\<close>: it slices before it
  compares.
\<close>

definition isMidiCall :: "byteslice \<Rightarrow> error + bool" where
  "isMidiCall req =
     (case slice_to req (length midiCall) of Inl e \<Rightarrow> Inl e
      | Inr pre \<Rightarrow> Inr (elems pre = midiCall))"

definition handleCmd :: "byteslice \<Rightarrow> run" where
  "handleCmd req =
     (case isMidiCall req of
        Inl e \<Rightarrow> ([], Panicked e)
      | Inr True \<Rightarrow>
          (case slice_from req (length midiCall) of Inl e \<Rightarrow> ([], Panicked e)
           | Inr req' \<Rightarrow> handleMidi req')
      | Inr False \<Rightarrow> ([PrintfNotImplemented (elems req)], Returned))"

text \<open>
  One call of \<^verbatim>\<open>udpSrv.ReadFrom(buf)\<close> as the listener sees it: the count \<open>rn\<close>, the
  sender, the error (\<open>None\<close> for \<^verbatim>\<open>nil\<close>) and the contents of \<^verbatim>\<open>buf\<close> after the call.
  \<^verbatim>\<open>ReadFrom\<close> answers with \<^verbatim>\<open>0 <= n <= len(buf)\<close>.
\<close>

record recv =
  rn :: nat
  raddr :: "addr option"
  rerr :: "goerror option"
  rbuf :: "byte list"

text \<open>
  One turn of the \<^verbatim>\<open>for\<close> loop of \<^verbatim>\<open>main\<close>, after \<^verbatim>\<open>ReadFrom\<close> has answered. The
  \<^verbatim>\<open>go\<close> statement starts the task and does not wait for it: the turn records the start
  and the slice handed over. \<open>Returned\<close> is the end of the loop body.
\<close>

definition main_iter :: "recv \<Rightarrow> run" where
  "main_iter r =
     (let buf = \<lparr>elems = rbuf r, spare = []\<rparr>
      in case reslice buf 0 (rn r) of Inl e \<Rightarrow> ([], Panicked e) | Inr s \<Rightarrow>
           (let bufCopy = copy (make_bytes (rn r)) buf
            in (PrintlnReceived (elems s) (raddr r)
                  # (case rerr r of None \<Rightarrow> [] | Some err \<Rightarrow> [LogPrintln err])
                  @ [Go bufCopy],
                Returned)))"

text \<open>
  The loop of \<^verbatim>\<open>main\<close> over the answers of \<^verbatim>\<open>ReadFrom\<close> so far; with none left it waits
  in \<^verbatim>\<open>ReadFrom\<close>. The loop has no \<^verbatim>\<open>break\<close> and no \<^verbatim>\<open>return\<close>.
\<close>

fun main_loop :: "recv list \<Rightarrow> run" where
  "main_loop [] = ([], Blocked)"
| "main_loop (r # rs) =
     (case main_iter r of
        (es, Returned) \<Rightarrow> (es @ fst (main_loop rs), snd (main_loop rs))
      | (es, out) \<Rightarrow> (es, out))"

section \<open>The second file (part 000)\<close>

definition midiCall_part0 :: "byte list" where
  "midiCall_part0 = bytes_of ''/midi''"

definition ToMidi_part0 :: "byteslice \<Rightarrow> error + Midi" where
  "ToMidi_part0 req =
     (case index req 10 of Inl e \<Rightarrow> Inl e | Inr s \<Rightarrow>
     (case index req 10 of Inl e \<Rightarrow> Inl e | Inr c \<Rightarrow>
     (case index req 9 of Inl e \<Rightarrow> Inl e | Inr n \<Rightarrow>
     (case index req 8 of Inl e \<Rightarrow> Inl e | Inr v \<Rightarrow>
        Inr \<lparr>State = drop_bit 4 s, Channel = c AND 0x0f, Note = n, Velocity = v\<rparr>))))"

definition Write_part0 :: "byte list \<Rightarrow> event list" where
  "Write_part0 data = [DeviceWrite data]"

text \<open>\<^verbatim>\<open>%08b\<close> of a byte: its eight binary digits, the highest first.\<close>

definition fmt08b :: "byte \<Rightarrow> string" where
  "fmt08b b = map (\<lambda>i. if bit b i then CHR ''1'' else CHR ''0'') (rev [0..<8])"

definition handleDeviceIn :: "byteslice \<Rightarrow> event list" where
  "handleDeviceIn req =
     Stdout ''Midi Device In: '' # map (\<lambda>b. Stdout (fmt08b b)) (elems req) @ [Stdout [CHR 0x0A]]"

text \<open>One call of \<^verbatim>\<open>m.MidiIn.Read(buf)\<close>: the count, the error and \<^verbatim>\<open>buf\<close> after the call.\<close>

record devread =
  dn :: nat
  derr :: "goerror option"
  dbuf :: "byte list"

text \<open>
  The loop of the goroutine that \<^verbatim>\<open>ListenMidiIn\<close> starts, over the answers of \<^verbatim>\<open>Read\<close> so
  far. \<^verbatim>\<open>log.Fatal\<close> prints and calls \<^verbatim>\<open>os.Exit(1)\<close>.
\<close>

fun ListenMidiIn :: "devread list \<Rightarrow> run" where
  "ListenMidiIn [] = ([], Blocked)"
| "ListenMidiIn (r # rs) =
     (case derr r of
        Some err \<Rightarrow> ([LogFatal err], Exited 1)
      | None \<Rightarrow>
          (let bufCopy = copy (make_bytes (dn r)) \<lparr>elems = dbuf r, spare = []\<rparr>
           in (handleDeviceIn bufCopy @ fst (ListenMidiIn rs), snd (ListenMidiIn rs))))"

definition handleBridgeIn :: "byteslice \<Rightarrow> run" where
  "handleBridgeIn req =
     (if len req \<noteq> 11 then ([], Returned)
      else (case ToMidi_part0 req of Inl e \<Rightarrow> ([], Panicked e) | Inr m \<Rightarrow>
           (case index req 10 of Inl e \<Rightarrow> ([PrintfMidiNote m], Panicked e) | Inr b10 \<Rightarrow>
           (case index req 9 of Inl e \<Rightarrow> ([PrintfMidiNote m], Panicked e) | Inr b9 \<Rightarrow>
           (case index req 8 of Inl e \<Rightarrow> ([PrintfMidiNote m], Panicked e) | Inr b8 \<Rightarrow>
             (PrintfMidiNote m # Write_part0 [b10, b9, b8], Returned))))))"

definition isMidiCall_part0 :: "byteslice \<Rightarrow> error + bool" where
  "isMidiCall_part0 req =
     (case slice_to req (length midiCall_part0) of Inl e \<Rightarrow> Inl e
      | Inr pre \<Rightarrow> Inr (elems pre = midiCall_part0))"

definition handleCmd_part0 :: "byteslice \<Rightarrow> run" where
  "handleCmd_part0 req =
     (case isMidiCall_part0 req of
        Inl e \<Rightarrow> ([], Panicked e)
      | Inr True \<Rightarrow>
          (case slice_from req (length midiCall_part0) of Inl e \<Rightarrow> ([], Panicked e)
           | Inr req' \<Rightarrow> handleBridgeIn req')
      | Inr False \<Rightarrow> ([PrintfNotImplemented (elems req)], Returned))"

definition main_iter_part0 :: "recv \<Rightarrow> run" where
  "main_iter_part0 r =
     (let buf = \<lparr>elems = rbuf r, spare = []\<rparr>
      in case reslice buf 0 (rn r) of Inl e \<Rightarrow> ([], Panicked e) | Inr s \<Rightarrow>
           (let bufCopy = copy (make_bytes (rn r)) buf
            in (PrintlnReceived (elems s) (raddr r)
                  # (case rerr r of None \<Rightarrow> [] | Some err \<Rightarrow> [LogPrintln err])
                  @ [Go bufCopy],
                Returned)))"

fun main_loop_part0 :: "recv list \<Rightarrow> run" where
  "main_loop_part0 [] = ([], Blocked)"
| "main_loop_part0 (r # rs) =
     (case main_iter_part0 r of
        (es, Returned) \<Rightarrow> (es @ fst (main_loop_part0 rs), snd (main_loop_part0 rs))
      | (es, out) \<Rightarrow> (es, out))"

section \<open>Properties\<close>

subsection \<open>Decoding and the payload handler\<close>

lemma midiCall_bytes: "midiCall = [0x2f, 0x6d, 0x69, 0x64, 0x69]"
  by (simp add: midiCall_def bytes_of_def)

lemma midiCall_part0_bytes: "midiCall_part0 = [0x2f, 0x6d, 0x69, 0x64, 0x69]"
  by (simp add: midiCall_part0_def bytes_of_def)

lemma midiCall_length: "length midiCall = 5"
  by (simp add: midiCall_def bytes_of_def)

lemma midiCall_part0_eq: "midiCall_part0 = midiCall"
  by (simp add: midiCall_def midiCall_part0_def)

lemma index_in_range: "i < len s \<Longrightarrow> index s i = Inr (elems s ! i)"
  by (simp add: index_def)

lemma ToMidi_11:
  "len req = 11 \<Longrightarrow> ToMidi req =
     Inr \<lparr>State = drop_bit 4 (elems req ! 10), Channel = elems req ! 10 AND 0x0f,
          Note = elems req ! 9, Velocity = elems req ! 8\<rparr>"
  by (simp add: ToMidi_def index_in_range)

lemma ToMidi_part0_11:
  "len req = 11 \<Longrightarrow> ToMidi_part0 req =
     Inr \<lparr>State = drop_bit 4 (elems req ! 10), Channel = elems req ! 10 AND 0x0f,
          Note = elems req ! 9, Velocity = elems req ! 8\<rparr>"
  by (simp add: ToMidi_part0_def index_in_range)

lemma handleMidi_11:
  "len req = 11 \<Longrightarrow> handleMidi req =
     ([PrintlnMidiNote \<lparr>State = drop_bit 4 (elems req ! 10), Channel = elems req ! 10 AND 0x0f,
          Note = elems req ! 9, Velocity = elems req ! 8\<rparr>,
       DeviceWrite [elems req ! 10, elems req ! 9, elems req ! 8]], Returned)"
  by (simp add: handleMidi_def ToMidi_11 index_in_range Write_def)

lemma handleBridgeIn_11:
  "len req = 11 \<Longrightarrow> handleBridgeIn req =
     ([PrintfMidiNote \<lparr>State = drop_bit 4 (elems req ! 10), Channel = elems req ! 10 AND 0x0f,
          Note = elems req ! 9, Velocity = elems req ! 8\<rparr>,
       DeviceWrite [elems req ! 10, elems req ! 9, elems req ! 8]], Returned)"
  by (simp add: handleBridgeIn_def ToMidi_part0_11 index_in_range Write_part0_def)

lemma handleMidi_not_11: "len req \<noteq> 11 \<Longrightarrow> handleMidi req = ([], Returned)"
  by (simp add: handleMidi_def)

lemma handleBridgeIn_not_11: "len req \<noteq> 11 \<Longrightarrow> handleBridgeIn req = ([], Returned)"
  by (simp add: handleBridgeIn_def)

lemma isMidiCall_short: "cap req < 5 \<Longrightarrow> isMidiCall req = Inl SliceBoundsOutOfRange"
  by (simp add: isMidiCall_def slice_to_def reslice_def midiCall_length)

lemma isMidiCall_long: "5 \<le> len req \<Longrightarrow> isMidiCall req = Inr (take 5 (elems req) = midiCall)"
  by (simp add: isMidiCall_def slice_to_def reslice_def midiCall_length len_def cap_def)

lemma isMidiCall_part0_eq: "isMidiCall_part0 req = isMidiCall req"
  unfolding isMidiCall_def isMidiCall_part0_def midiCall_part0_eq ..

lemma handleCmd_short: "cap req < 5 \<Longrightarrow> handleCmd req = ([], Panicked SliceBoundsOutOfRange)"
  by (simp add: handleCmd_def isMidiCall_short)

lemma handleCmd_midi:
  "5 \<le> len req \<Longrightarrow> take 5 (elems req) = midiCall \<Longrightarrow>
     handleCmd req = handleMidi \<lparr>elems = drop 5 (elems req), spare = spare req\<rparr>"
  by (simp add: handleCmd_def isMidiCall_long slice_from_def reslice_def len_def cap_def midiCall_length)

lemma handleCmd_other:
  "5 \<le> len req \<Longrightarrow> take 5 (elems req) \<noteq> midiCall \<Longrightarrow>
     handleCmd req = ([PrintfNotImplemented (elems req)], Returned)"
  by (simp add: handleCmd_def isMidiCall_long)

lemma handleCmd_part0_short: "cap req < 5 \<Longrightarrow> handleCmd_part0 req = ([], Panicked SliceBoundsOutOfRange)"
  by (simp add: handleCmd_part0_def isMidiCall_part0_eq isMidiCall_short)

lemma handleCmd_part0_midi:
  "5 \<le> len req \<Longrightarrow> take 5 (elems req) = midiCall \<Longrightarrow>
     handleCmd_part0 req = handleBridgeIn \<lparr>elems = drop 5 (elems req), spare = spare req\<rparr>"
  by (simp add: handleCmd_part0_def isMidiCall_part0_eq isMidiCall_long slice_from_def reslice_def
      len_def cap_def midiCall_length midiCall_part0_eq)

lemma handleCmd_part0_other:
  "5 \<le> len req \<Longrightarrow> take 5 (elems req) \<noteq> midiCall \<Longrightarrow>
     handleCmd_part0 req = ([PrintfNotImplemented (elems req)], Returned)"
  by (simp add: handleCmd_part0_def isMidiCall_part0_eq isMidiCall_long)

text \<open>
  C1. For every payload of exactly 11 bytes, the payload handler of either file calls the
  device write once, with the three bytes at offsets 10, 9 and 8 of the payload in this
  order, and returns. The first byte written is the byte read at offset 10 itself.
\<close>

theorem handle_payload_writes_three_bytes:
  assumes "len p = 11"
  shows "deviceWrites (fst (handleMidi p)) = [[elems p ! 10, elems p ! 9, elems p ! 8]]
       \<and> snd (handleMidi p) = Returned
       \<and> deviceWrites (fst (handleBridgeIn p)) = [[elems p ! 10, elems p ! 9, elems p ! 8]]
       \<and> snd (handleBridgeIn p) = Returned"
  using assms by (simp add: handleMidi_11 handleBridgeIn_11)

theorem handle_payload_writes_three_bytes_witness:
  "len \<lparr>elems = [1, 2, 3, 4, 5, 6, 7, 8, 0x40, 0x3c, 0x81], spare = []\<rparr> = 11
   \<and> deviceWrites (fst (handleMidi \<lparr>elems = [1, 2, 3, 4, 5, 6, 7, 8, 0x40, 0x3c, 0x81], spare = []\<rparr>))
       = [[0x81, 0x3c, 0x40]]
   \<and> deviceWrites (fst (handleBridgeIn \<lparr>elems = [1, 2, 3, 4, 5, 6, 7, 8, 0x40, 0x3c, 0x81], spare = []\<rparr>))
       = [[0x81, 0x3c, 0x40]]"
  using handle_payload_writes_three_bytes
    [of "\<lparr>elems = [1, 2, 3, 4, 5, 6, 7, 8, 0x40, 0x3c, 0x81], spare = []\<rparr>"]
  by (simp add: len_def)

text \<open>
  C2. For every payload of 11 bytes, \<^verbatim>\<open>ToMidi\<close> of either file returns the record with
  \<open>State\<close> the byte at offset 10 shifted right by four, \<open>Channel\<close> that byte masked with
  \<open>0x0F\<close>, \<open>Note\<close> the byte at offset 9 and \<open>Velocity\<close> the byte at offset 8. With
  \<open>0x92\<close>, \<open>60\<close> and \<open>100\<close> at offsets 10, 9 and 8 the record is
  \<open>{9, 2, 60, 100}\<close> and the device write is \<open>[0x92, 60, 100]\<close>.
\<close>

theorem ToMidi_decodes_fixed_offsets:
  assumes "len p = 11"
  shows "ToMidi p = Inr \<lparr>State = drop_bit 4 (elems p ! 10), Channel = elems p ! 10 AND 0x0F,
                         Note = elems p ! 9, Velocity = elems p ! 8\<rparr>
       \<and> ToMidi_part0 p = ToMidi p
       \<and> (elems p ! 10 = 0x92 \<and> elems p ! 9 = 60 \<and> elems p ! 8 = 100 \<longrightarrow>
            ToMidi p = Inr \<lparr>State = 9, Channel = 2, Note = 60, Velocity = 100\<rparr>
          \<and> deviceWrites (fst (handleMidi p)) = [[0x92, 60, 100]]
          \<and> deviceWrites (fst (handleBridgeIn p)) = [[0x92, 60, 100]])"
  using assms by (simp add: ToMidi_11 ToMidi_part0_11 handleMidi_11 handleBridgeIn_11)

theorem ToMidi_decodes_fixed_offsets_witness:
  "len \<lparr>elems = [0, 0, 0, 0, 0, 0, 0, 0, 100, 60, 0x92], spare = []\<rparr> = 11
   \<and> ToMidi \<lparr>elems = [0, 0, 0, 0, 0, 0, 0, 0, 100, 60, 0x92], spare = []\<rparr>
       = Inr \<lparr>State = 9, Channel = 2, Note = 60, Velocity = 100\<rparr>
   \<and> ToMidi_part0 \<lparr>elems = [0, 0, 0, 0, 0, 0, 0, 0, 100, 60, 0x92], spare = []\<rparr>
       = Inr \<lparr>State = 9, Channel = 2, Note = 60, Velocity = 100\<rparr>
   \<and> deviceWrites (fst (handleMidi \<lparr>elems = [0, 0, 0, 0, 0, 0, 0, 0, 100, 60, 0x92], spare = []\<rparr>))
       = [[0x92, 60, 100]]
   \<and> deviceWrites (fst (handleBridgeIn \<lparr>elems = [0, 0, 0, 0, 0, 0, 0, 0, 100, 60, 0x92], spare = []\<rparr>))
       = [[0x92, 60, 100]]"
  using ToMidi_decodes_fixed_offsets
    [of "\<lparr>elems = [0, 0, 0, 0, 0, 0, 0, 0, 100, 60, 0x92], spare = []\<rparr>"]
  by (simp add: len_def)

text \<open>
  C3. For every payload whose length is not 11, the payload handler of either file returns
  with an empty trace: no device write, no MidiNote line, no panic.
\<close>

theorem wrong_length_payload_is_dropped:
  assumes "len p \<noteq> 11"
  shows "handleMidi p = ([], Returned) \<and> handleBridgeIn p = ([], Returned)"
  using assms by (simp add: handleMidi_not_11 handleBridgeIn_not_11)

theorem wrong_length_payload_is_dropped_witness:
  "len \<lparr>elems = [0, 0, 0, 0, 0, 0, 0, 0, 100, 60, 0x92, 7], spare = []\<rparr> \<noteq> 11
   \<and> handleMidi \<lparr>elems = [0, 0, 0, 0, 0, 0, 0, 0, 100, 60, 0x92, 7], spare = []\<rparr> = ([], Returned)
   \<and> handleBridgeIn \<lparr>elems = [0, 0, 0, 0, 0, 0, 0, 0, 100, 60, 0x92, 7], spare = []\<rparr> = ([], Returned)"
  using wrong_length_payload_is_dropped
    [of "\<lparr>elems = [0, 0, 0, 0, 0, 0, 0, 0, 100, 60, 0x92, 7], spare = []\<rparr>"]
  by (simp add: len_def)

subsection \<open>The dispatcher\<close>

text \<open>
  What the dispatcher does on packets of five bytes or more is in \<open>handleCmd_midi\<close> and
  \<open>handleCmd_other\<close> (and their counterparts for the second file) above: a packet that
  starts with \<^verbatim>\<open>/midi\<close> goes to the payload handler without its first five bytes, any
  other one is reported and nothing is written. On a slice with a capacity below five,
  \<open>handleCmd_short\<close>, the guard panics.
\<close>

text \<open>
  C4. The specification promises the report, and nothing else, for every packet that does
  not start with \<^verbatim>\<open>/midi\<close>. At the four-byte packet \<^verbatim>\<open>ping\<close>, as \<^verbatim>\<open>main\<close> hands it over (capacity
  four), the dispatcher of either file panics with a slice bound out of range and reports
  nothing; at the five-byte packet \<^verbatim>\<open>pings\<close> it reports and returns.
\<close>

theorem dispatch_short_other_packet_panics:
  "handleCmd \<lparr>elems = bytes_of ''ping'', spare = []\<rparr> = ([], Panicked SliceBoundsOutOfRange)
   \<and> handleCmd_part0 \<lparr>elems = bytes_of ''ping'', spare = []\<rparr> = ([], Panicked SliceBoundsOutOfRange)
   \<and> handleCmd \<lparr>elems = bytes_of ''pings'', spare = []\<rparr>
       = ([PrintfNotImplemented (bytes_of ''pings'')], Returned)
   \<and> handleCmd_part0 \<lparr>elems = bytes_of ''pings'', spare = []\<rparr>
       = ([PrintfNotImplemented (bytes_of ''pings'')], Returned)"
  by (simp add: handleCmd_short handleCmd_part0_short handleCmd_other handleCmd_part0_other
      cap_def len_def bytes_of_def midiCall_bytes)

text \<open>
  C5. The specification has the dispatcher complete without a fault on every packet, the
  empty one included. On the empty packet, \<^verbatim>\<open>make([]byte, 0)\<close>, the guard of either file
  slices beyond the capacity and the dispatcher ends in a panic, with no report.
\<close>

theorem dispatch_empty_packet_panics:
  "isMidiCall (make_bytes 0) = Inl SliceBoundsOutOfRange
   \<and> handleCmd (make_bytes 0) = ([], Panicked SliceBoundsOutOfRange)
   \<and> isMidiCall_part0 (make_bytes 0) = Inl SliceBoundsOutOfRange
   \<and> handleCmd_part0 (make_bytes 0) = ([], Panicked SliceBoundsOutOfRange)"
  by (simp add: handleCmd_short handleCmd_part0_short isMidiCall_short isMidiCall_part0_eq
      cap_def make_bytes_def)

subsection \<open>The input listener\<close>

text \<open>
  C7. When a read of the input device answers with an error, after any number of reads
  without one, the listening loop prints the error through \<^verbatim>\<open>log.Fatal\<close> and the process
  exits with status 1; what the device would have answered afterwards is never read.
\<close>

theorem read_error_is_fatal:
  assumes "\<forall>r \<in> set oks. derr r = None" and "derr bad = Some e"
  shows "ListenMidiIn (oks @ bad # rest) = (fst (ListenMidiIn oks) @ [LogFatal e], Exited 1)"
  using assms by (induction oks) (simp_all add: Let_def)

theorem read_error_is_fatal_witness:
  "derr \<lparr>dn = 1, derr = None, dbuf = [0x90, 0, 0]\<rparr> = None
   \<and> derr \<lparr>dn = 0, derr = Some ''input/output error'', dbuf = [0x90, 0, 0]\<rparr> = Some ''input/output error''
   \<and> ListenMidiIn [\<lparr>dn = 1, derr = None, dbuf = [0x90, 0, 0]\<rparr>,
                    \<lparr>dn = 0, derr = Some ''input/output error'', dbuf = [0x90, 0, 0]\<rparr>,
                    \<lparr>dn = 2, derr = None, dbuf = [0x3c, 0x40, 0]\<rparr>]
       = ([Stdout ''Midi Device In: '', Stdout ''10010000'', Stdout [CHR 0x0A],
           LogFatal ''input/output error''], Exited 1)"
  using read_error_is_fatal
    [of "[\<lparr>dn = 1, derr = None, dbuf = [0x90, 0, 0]\<rparr>]"
        "\<lparr>dn = 0, derr = Some ''input/output error'', dbuf = [0x90, 0, 0]\<rparr>"
        "''input/output error''"
        "[\<lparr>dn = 2, derr = None, dbuf = [0x3c, 0x40, 0]\<rparr>]"]
  by (simp add: Let_def copy_def make_bytes_def len_def handleDeviceIn_def fmt08b_def upt_rec bit_numeral_word_iff)

subsection \<open>The network listener\<close>

lemma received_copy:
  "n \<le> length b \<Longrightarrow> copy (make_bytes n) \<lparr>elems = b, spare = []\<rparr> = \<lparr>elems = take n b, spare = []\<rparr>"
  by (simp add: copy_def make_bytes_def len_def min_def)

lemma main_iter_ok:
  "rn r \<le> length (rbuf r) \<Longrightarrow>
     main_iter r =
       (PrintlnReceived (take (rn r) (rbuf r)) (raddr r)
          # (case rerr r of None \<Rightarrow> [] | Some err \<Rightarrow> [LogPrintln err])
          @ [Go \<lparr>elems = take (rn r) (rbuf r), spare = []\<rparr>], Returned)"
  by (simp add: main_iter_def reslice_def cap_def received_copy Let_def)

lemma main_iter_part0_eq: "main_iter_part0 r = main_iter r"
  unfolding main_iter_part0_def main_iter_def ..

lemma main_loop_continues:
  "rn r \<le> length (rbuf r) \<Longrightarrow>
     main_loop (r # rs) = (fst (main_iter r) @ fst (main_loop rs), snd (main_loop rs))"
  by (simp add: main_iter_ok)

text \<open>
  C10. When \<^verbatim>\<open>ReadFrom\<close> answers with an error and a count \<open>n\<close>, the turn of the loop
  logs the error and then, as without an error, copies the first \<open>n\<close> bytes of the buffer
  and starts a dispatch task on the copy; with \<open>n = 0\<close> the task gets the empty packet.
\<close>

theorem errored_receive_is_still_dispatched:
  assumes "rn r \<le> length (rbuf r)" and "rerr r = Some e"
  shows "main_iter r =
           ([PrintlnReceived (take (rn r) (rbuf r)) (raddr r), LogPrintln e,
             Go \<lparr>elems = take (rn r) (rbuf r), spare = []\<rparr>], Returned)
       \<and> main_iter_part0 r = main_iter r
       \<and> (rn r = 0 \<longrightarrow> main_iter r =
             ([PrintlnReceived [] (raddr r), LogPrintln e, Go \<lparr>elems = [], spare = []\<rparr>], Returned))"
  using assms by (simp add: main_iter_ok main_iter_part0_eq)

theorem errored_receive_is_still_dispatched_witness:
  "rn \<lparr>rn = 0, raddr = None, rerr = Some ''i/o timeout'', rbuf = replicate 1024 0\<rparr>
     \<le> length (rbuf \<lparr>rn = 0, raddr = None, rerr = Some ''i/o timeout'', rbuf = replicate 1024 0\<rparr>)
   \<and> rerr \<lparr>rn = 0, raddr = None, rerr = Some ''i/o timeout'', rbuf = replicate 1024 0\<rparr>
       = Some ''i/o timeout''
   \<and> rn \<lparr>rn = 0, raddr = None, rerr = Some ''i/o timeout'', rbuf = replicate 1024 0\<rparr> = 0
   \<and> main_iter \<lparr>rn = 0, raddr = None, rerr = Some ''i/o timeout'', rbuf = replicate 1024 0\<rparr>
       = ([PrintlnReceived [] None, LogPrintln ''i/o timeout'', Go \<lparr>elems = [], spare = []\<rparr>],
          Returned)
   \<and> main_iter_part0 \<lparr>rn = 0, raddr = None, rerr = Some ''i/o timeout'', rbuf = replicate 1024 0\<rparr>
       = ([PrintlnReceived [] None, LogPrintln ''i/o timeout'', Go \<lparr>elems = [], spare = []\<rparr>],
          Returned)"
  using errored_receive_is_still_dispatched
    [of "\<lparr>rn = 0, raddr = None, rerr = Some ''i/o timeout'', rbuf = replicate 1024 0\<rparr>"
        "''i/o timeout''"]
  by simp

text \<open>
  The loop of \<^verbatim>\<open>main\<close> itself goes on after an error (\<open>main_loop_continues\<close>): it has no
  exit. A panic that nothing recovers ends the whole program, in whichever goroutine it
  is raised, and the program has no \<^verbatim>\<open>recover\<close>.
\<close>

text \<open>
  C8. The specification has the listener keep accepting packets after a receive that
  answered with an error. The net package returns an error with the count 0: the turn of
  the loop logs the error and starts a dispatch task on the empty packet, and that task
  panics in the guard of \<^verbatim>\<open>handleCmd\<close>, in either file.
\<close>

theorem errored_receive_spawns_panicking_task:
  "main_iter \<lparr>rn = 0, raddr = None, rerr = Some ''no buffer space available'',
               rbuf = replicate 1024 0\<rparr>
     = ([PrintlnReceived [] None, LogPrintln ''no buffer space available'',
         Go \<lparr>elems = [], spare = []\<rparr>], Returned)
   \<and> handleCmd \<lparr>elems = [], spare = []\<rparr> = ([], Panicked SliceBoundsOutOfRange)
   \<and> main_iter_part0 \<lparr>rn = 0, raddr = None, rerr = Some ''no buffer space available'',
               rbuf = replicate 1024 0\<rparr>
     = ([PrintlnReceived [] None, LogPrintln ''no buffer space available'',
         Go \<lparr>elems = [], spare = []\<rparr>], Returned)
   \<and> handleCmd_part0 \<lparr>elems = [], spare = []\<rparr> = ([], Panicked SliceBoundsOutOfRange)"
  by (simp add: main_iter_ok main_iter_part0_eq handleCmd_short handleCmd_part0_short cap_def)

subsection \<open>The two files\<close>

lemma ToMidi_part0_eq: "ToMidi_part0 req = ToMidi req"
  unfolding ToMidi_part0_def ToMidi_def ..

lemma handleBridgeIn_writes: "deviceWrites (fst (handleBridgeIn req)) = deviceWrites (fst (handleMidi req))"
  by (cases "len req = 11") (simp_all add: handleMidi_11 handleBridgeIn_11 handleMidi_not_11 handleBridgeIn_not_11)

lemma handleBridgeIn_outcome: "snd (handleBridgeIn req) = snd (handleMidi req)"
  by (cases "len req = 11") (simp_all add: handleMidi_11 handleBridgeIn_11 handleMidi_not_11 handleBridgeIn_not_11)

lemma handleCmd_part0_writes: "deviceWrites (fst (handleCmd_part0 req)) = deviceWrites (fst (handleCmd req))"
  by (simp add: handleCmd_part0_def handleCmd_def isMidiCall_part0_eq midiCall_part0_eq
      handleBridgeIn_writes split: sum.splits bool.splits)

lemma handleCmd_part0_outcome: "snd (handleCmd_part0 req) = snd (handleCmd req)"
  by (simp add: handleCmd_part0_def handleCmd_def isMidiCall_part0_eq midiCall_part0_eq
      handleBridgeIn_outcome split: sum.splits bool.splits)

text \<open>
  C9. On every packet the dispatchers of the two files take the same decision (or panic
  alike), make the same device writes and end alike; on every slice the two \<^verbatim>\<open>ToMidi\<close>
  return the same record, the two payload handlers make the same device writes and end
  alike, and both drop a payload whose length is not 11. The files differ in how the
  MidiNote line is printed.
\<close>

theorem both_files_same_core_path:
  "isMidiCall_part0 req = isMidiCall req
   \<and> deviceWrites (fst (handleCmd_part0 req)) = deviceWrites (fst (handleCmd req))
   \<and> snd (handleCmd_part0 req) = snd (handleCmd req)
   \<and> ToMidi_part0 req = ToMidi req
   \<and> deviceWrites (fst (handleBridgeIn req)) = deviceWrites (fst (handleMidi req))
   \<and> snd (handleBridgeIn req) = snd (handleMidi req)
   \<and> (len req \<noteq> 11 \<longrightarrow> handleMidi req = ([], Returned) \<and> handleBridgeIn req = ([], Returned))"
  by (simp add: isMidiCall_part0_eq handleCmd_part0_writes handleCmd_part0_outcome ToMidi_part0_eq
      handleBridgeIn_writes handleBridgeIn_outcome handleMidi_not_11 handleBridgeIn_not_11)

theorem both_files_same_core_path_witness:
  "len \<lparr>elems = bytes_of ''/midi'' @ [0, 0, 0, 0, 0, 0, 0, 0, 100, 60, 0x92], spare = []\<rparr> \<noteq> 11
   \<and> handleMidi \<lparr>elems = bytes_of ''/midi'' @ [0, 0, 0, 0, 0, 0, 0, 0, 100, 60, 0x92], spare = []\<rparr>
       = ([], Returned)
   \<and> handleBridgeIn \<lparr>elems = bytes_of ''/midi'' @ [0, 0, 0, 0, 0, 0, 0, 0, 100, 60, 0x92], spare = []\<rparr>
       = ([], Returned)
   \<and> isMidiCall_part0 \<lparr>elems = bytes_of ''/midi'' @ [0, 0, 0, 0, 0, 0, 0, 0, 100, 60, 0x92], spare = []\<rparr>
       = Inr True
   \<and> deviceWrites (fst (handleCmd_part0
         \<lparr>elems = bytes_of ''/midi'' @ [0, 0, 0, 0, 0, 0, 0, 0, 100, 60, 0x92], spare = []\<rparr>))
       = [[0x92, 60, 100]]
   \<and> snd (handleCmd_part0
         \<lparr>elems = bytes_of ''/midi'' @ [0, 0, 0, 0, 0, 0, 0, 0, 100, 60, 0x92], spare = []\<rparr>)
       = Returned"
  using both_files_same_core_path
    [of "\<lparr>elems = bytes_of ''/midi'' @ [0, 0, 0, 0, 0, 0, 0, 0, 100, 60, 0x92], spare = []\<rparr>"]
  by (simp add: len_def bytes_of_def midiCall_bytes isMidiCall_long handleCmd_midi handleMidi_11)


end
